theory Spec2Isabelle
  imports Complex_Main
begin

section \<open>The instance shader (crates/renderer\_wgpu/src/shader.wgsl)\<close>

text \<open>
  WGSL \<open>f32\<close> scalars are read as real numbers: the development is about the
  arithmetic the shader writes down, not about rounding. \<open>vec2<f32>\<close> and
  \<open>vec4<f32>\<close> are tuples of components with the component-wise operators of WGSL.
\<close>

datatype vec2 = vec2 (vx: real) (vy: real)

datatype vec4 = vec4 (v4x: real) (v4y: real) (v4z: real) (v4w: real)

definition vec2_add :: "vec2 \<Rightarrow> vec2 \<Rightarrow> vec2" where
  "vec2_add a b = vec2 (vx a + vx b) (vy a + vy b)"

definition vec2_sub :: "vec2 \<Rightarrow> vec2 \<Rightarrow> vec2" where
  "vec2_sub a b = vec2 (vx a - vx b) (vy a - vy b)"

definition vec2_mul :: "vec2 \<Rightarrow> vec2 \<Rightarrow> vec2" where
  "vec2_mul a b = vec2 (vx a * vx b) (vy a * vy b)"

definition vec2_scale :: "vec2 \<Rightarrow> real \<Rightarrow> vec2" where
  "vec2_scale a s = vec2 (vx a * s) (vy a * s)"

record VsOut =
  pos :: vec4

record CameraUniform =
  pan :: vec2
  zoom :: real
  pad0 :: real
  canvas :: vec2
  pad1 :: vec2

text \<open>Line 25: \<open>let world = inst_pos + in_pos * inst_size;\<close>\<close>

definition world_of :: "vec2 \<Rightarrow> vec2 \<Rightarrow> vec2 \<Rightarrow> vec2" where
  "world_of in_pos inst_pos inst_size = vec2_add inst_pos (vec2_mul in_pos inst_size)"

text \<open>Line 26: \<open>let screen = (world - u_camera.pan) * u_camera.zoom;\<close>\<close>

definition screen_of :: "CameraUniform \<Rightarrow> vec2 \<Rightarrow> vec2" where
  "screen_of u_camera world = vec2_scale (vec2_sub world (pan u_camera)) (zoom u_camera)"

text \<open>Lines 28 to 31: the two components of \<open>ndc\<close>.\<close>

definition ndc_of :: "CameraUniform \<Rightarrow> vec2 \<Rightarrow> vec2" where
  "ndc_of u_camera screen =
     vec2 ((vx screen / vx (canvas u_camera)) * 2.0 - 1.0)
          (1.0 - (vy screen / vy (canvas u_camera)) * 2.0)"

text \<open>
  The vertex stage. \<open>inst_color\<close> is declared at location 3 and is not read in the
  body; \<open>VsOut\<close> has the single field \<open>pos\<close>.
\<close>

definition vs_main :: "CameraUniform \<Rightarrow> vec2 \<Rightarrow> vec2 \<Rightarrow> vec2 \<Rightarrow> vec4 \<Rightarrow> VsOut" where
  "vs_main u_camera in_pos inst_pos inst_size inst_color =
     (let world = world_of in_pos inst_pos inst_size;
          screen = screen_of u_camera world;
          ndc = ndc_of u_camera screen
      in \<lparr> pos = vec4 (vx ndc) (vy ndc) 0.0 1.0 \<rparr>)"

text \<open>The fragment stage takes no input and returns a constant.\<close>

definition fs_main :: vec4 where
  "fs_main = vec4 0.2 0.6 0.9 1.0"

text \<open>
  One instance as the vertex buffer of step mode \<open>instance\<close> delivers it, and the
  colour written for a fragment of that instance's quad: the fragment stage runs on
  what the vertex stage hands over, which is \<open>VsOut\<close>.
\<close>

record InstanceRecord =
  position :: vec2
  size :: vec2
  color :: vec4

definition fragment_color :: "CameraUniform \<Rightarrow> vec2 \<Rightarrow> InstanceRecord \<Rightarrow> vec4" where
  "fragment_color u_camera in_pos inst =
     (let out = vs_main u_camera in_pos (position inst) (size inst) (color inst)
      in fs_main)"

subsection \<open>The transform pipeline as the specification writes it\<close>

text \<open>
  Section 4.3 of the specification, component by component:
  \<open>world = instance.position + corner_offset * instance.size\<close>,
  \<open>screen = (world - camera.pan) * camera.zoom\<close>,
  \<open>ndc.x = (screen.x / canvas.width) * 2 - 1\<close>,
  \<open>ndc.y = 1 - (screen.y / canvas.height) * 2\<close>.
\<close>

definition spec_world :: "real \<Rightarrow> real \<Rightarrow> real \<Rightarrow> real" where
  "spec_world instance_position corner_offset instance_size =
     instance_position + corner_offset * instance_size"

definition spec_screen :: "real \<Rightarrow> real \<Rightarrow> real \<Rightarrow> real" where
  "spec_screen world camera_pan camera_zoom = (world - camera_pan) * camera_zoom"

definition spec_ndc_x :: "real \<Rightarrow> real \<Rightarrow> real" where
  "spec_ndc_x screen_x canvas_width = (screen_x / canvas_width) * 2 - 1"

definition spec_ndc_y :: "real \<Rightarrow> real \<Rightarrow> real" where
  "spec_ndc_y screen_y canvas_height = 1 - (screen_y / canvas_height) * 2"

section \<open>Host-side types (web/src/App.tsx, lines 4 to 20)\<close>

text \<open>
  A JavaScript \<open>number\<close> is read as a real number, as \<open>f32\<close> is above, with one
  exception: the result of \<open>Math.exp\<close>, the one operation of the component that
  leaves the range of the doubles on finite arguments. Its result is a \<open>number\<close>
  that is finite or \<open>Infinity\<close>.
\<close>

record Point =
  pt_x :: real
  pt_y :: real

record CameraView =
  view_pan :: Point
  view_zoom :: real

datatype number = Finite real | Infinity

text \<open>
  \<open>Math.exp\<close> on a finite argument, with the range of the doubles under rounding to
  nearest: a value of at most \<open>2^-1075\<close>, half the least positive double, becomes
  \<open>0\<close>; a value of at least \<open>2^1024 - 2^970\<close>, half way from the greatest double to
  \<open>2^1024\<close>, becomes \<open>Infinity\<close>. In between the result is taken to be the
  exponential itself: rounding to the nearest double is not modelled.
\<close>

definition Math_exp :: "real \<Rightarrow> number" where
  "Math_exp x =
     (if exp x \<le> 1 / 2 ^ 1075 then Finite 0
      else if 2 ^ 1024 - 2 ^ 970 \<le> exp x then Infinity
      else Finite (exp x))"



datatype InputEvent =
    camera_pan_by_screen_delta (delta_px: Point)
  | camera_zoom_at_screen_point (pivot_px: Point) (zoom_multiplier: number)

section \<open>The camera's zoom operation\<close>

text \<open>
  Modelled from the spec: \<open>Camera.zoomAtScreenPoint\<close> runs inside the wasm module
  behind \<open>app.tick\<close>, whose Rust source is not among the source files. The definition
  follows section 4.1: let \<open>world_pivot = pan + pivot_px / zoom_old\<close>; after updating
  \<open>zoom_new = zoom_old * multiplier\<close>, set \<open>pan_new = world_pivot - pivot_px / zoom_new\<close>.
\<close>

definition zoomAtScreenPoint :: "CameraView \<Rightarrow> Point \<Rightarrow> real \<Rightarrow> CameraView" where
  "zoomAtScreenPoint cam pivot multiplier =
     (let zoom_old = view_zoom cam;
          world_pivot = \<lparr> pt_x = pt_x (view_pan cam) + pt_x pivot / zoom_old,
                          pt_y = pt_y (view_pan cam) + pt_y pivot / zoom_old \<rparr>;
          zoom_new = zoom_old * multiplier;
          pan_new = \<lparr> pt_x = pt_x world_pivot - pt_x pivot / zoom_new,
                      pt_y = pt_y world_pivot - pt_y pivot / zoom_new \<rparr>
      in \<lparr> view_pan = pan_new, view_zoom = zoom_new \<rparr>)"

text \<open>
  Modelled from the spec: the host code that fills the uniform buffer is in the same
  absent crate. Section 3 describes \<open>CameraUniform\<close> as the projection of
  \<open>CameraView\<close> \<open>{pan, zoom, canvas}\<close> plus padding.
\<close>

definition camera_uniform :: "CameraView \<Rightarrow> vec2 \<Rightarrow> CameraUniform" where
  "camera_uniform cam canvas_size =
     \<lparr> pan = vec2 (pt_x (view_pan cam)) (pt_y (view_pan cam)), zoom = view_zoom cam,
       pad0 = 0, canvas = canvas_size, pad1 = vec2 0 0 \<rparr>"

definition to_vec2 :: "Point \<Rightarrow> vec2" where
  "to_vec2 p = vec2 (pt_x p) (pt_y p)"

section \<open>The component (web/src/App.tsx, lines 22 to 169)\<close>

text \<open>
  What the component calls and does not define is a parameter of the model:
  \<^item> \<open>app_tick\<close> is \<open>app.tick(batch)\<close> of the wasm module. It is given the wasm
    object and the batch as it stands (\<open>None\<close> for \<open>null\<close>, otherwise the contents of
    \<open>batch.events\<close>), and returns the wasm object after the call together with either
    the thrown value (\<open>Inl\<close>) or the \<open>camera\<close> field of the result (\<open>Inr\<close>). It is
    taken to read the batch and not to write the JavaScript array;
  \<^item> \<open>String_of\<close> is \<open>String(err)\<close>;
  \<^item> \<open>toFixed\<close> is \<open>Number.prototype.toFixed\<close>.
\<close>

record ('a, 'e) Env =
  app_tick :: "'a \<Rightarrow> InputEvent list option \<Rightarrow> 'a \<times> ('e + CameraView)"
  String_of :: "'e \<Rightarrow> string"
  toFixed :: "real \<Rightarrow> nat \<Rightarrow> string"

datatype Target = Window | Canvas

text \<open>
  The state is the variables of \<open>App\<close> and \<open>onMount\<close> (lines 24 to 35), and what
  they refer to in the browser:
  \<^item> \<open>batch\<close> is \<open>null\<close> or a reference to the batch object; \<open>objects\<close> gives, for a
    batch object, the reference held in its \<open>events\<close> field; \<open>arrays\<close> gives the
    contents of an array; \<open>next_ref\<close> is the next unused reference;
  \<^item> \<open>listeners\<close> are the event listeners registered with
    \<open>abortController.signal\<close>;
  \<^item> \<open>raf_callbacks\<close> are the handles of the animation frame callbacks that are
    registered and have neither run nor been cancelled (each is \<open>frame\<close>), and
    \<open>raf_last\<close> is the last handle handed out (handles start at 1);
  \<^item> \<open>init_stage\<close> is where the \<open>async\<close> function of lines 131 to 160 stands:
    0 before \<open>setVer\<close>, 1 while it awaits \<open>m.App.new\<close>, 2 after line 159;
  \<^item> \<open>ticks\<close> records the argument of every call of \<open>app.tick\<close>, in order. The
    code has no such variable: it is there to state what a tick was given.
\<close>

record 'a AppState =
  spaceDown :: bool
  isPanning :: bool
  lastPt :: "Point option"
  batch :: "nat option"
  ver :: string
  cameraText :: string
  rafId :: nat
  running :: bool
  listeners :: "(Target \<times> string) list"
  app :: "'a option"
  init_stage :: nat
  objects :: "nat \<rightharpoonup> nat"
  arrays :: "nat \<rightharpoonup> InputEvent list"
  next_ref :: nat
  raf_callbacks :: "nat list"
  raf_last :: nat
  ticks :: "InputEvent list option list"

text \<open>
  The state when the synchronous part of \<open>onMount\<close> has run: the seven listeners
  are registered (lines 37 to 129), the \<open>async\<close> function is suspended at its first
  \<open>await\<close>, and the cleanup is registered.
\<close>

definition onMount :: "'a AppState" where
  "onMount =
     \<lparr> spaceDown = False, isPanning = False, lastPt = None, batch = None,
       ver = ''(loading)'', cameraText = ''(no data)'', rafId = 0, running = True,
       listeners = [(Window, ''keydown''), (Window, ''keyup''), (Canvas, ''pointerdown''),
                    (Canvas, ''pointermove''), (Canvas, ''pointerup''),
                    (Canvas, ''pointercancel''), (Canvas, ''wheel'')],
       app = None, init_stage = 0, objects = Map.empty, arrays = Map.empty, next_ref = 0,
       raf_callbacks = [], raf_last = 0, ticks = [] \<rparr>"

definition events_ref :: "'a AppState \<Rightarrow> nat option" where
  "events_ref st = (case batch st of None \<Rightarrow> None | Some b \<Rightarrow> objects st b)"

text \<open>The value \<open>batch\<close> as \<open>app.tick\<close> receives it.\<close>

definition batch_events :: "'a AppState \<Rightarrow> InputEvent list option" where
  "batch_events st = (case events_ref st of None \<Rightarrow> None | Some r \<Rightarrow> arrays st r)"

text \<open>\<open>batch.events.push(ev)\<close>: the array that \<open>batch.events\<close> refers to grows by one.\<close>

definition push :: "InputEvent \<Rightarrow> 'a AppState \<Rightarrow> 'a AppState" where
  "push ev st =
     (case events_ref st of
        None \<Rightarrow> st
      | Some r \<Rightarrow>
          (case arrays st r of
             None \<Rightarrow> st
           | Some evs \<Rightarrow> st\<lparr> arrays := (arrays st)(r \<mapsto> evs @ [ev]) \<rparr>))"

text \<open>\<open>batch.events.length = 0\<close>: the same array, truncated.\<close>

definition clear_events :: "'a AppState \<Rightarrow> 'a AppState" where
  "clear_events st =
     (case events_ref st of
        None \<Rightarrow> st
      | Some r \<Rightarrow> st\<lparr> arrays := (arrays st)(r \<mapsto> []) \<rparr>)"

subsection \<open>The listeners\<close>

text \<open>
  \<open>preventDefault\<close>, \<open>setPointerCapture\<close> and \<open>releasePointerCapture\<close> act on the
  browser only and leave the variables alone; they are not part of the state.
\<close>

definition keydown_listener :: "string \<Rightarrow> 'a AppState \<Rightarrow> 'a AppState" where
  "keydown_listener code st = (if code = ''Space'' then st\<lparr> spaceDown := True \<rparr> else st)"

definition keyup_listener :: "string \<Rightarrow> 'a AppState \<Rightarrow> 'a AppState" where
  "keyup_listener code st =
     (if code = ''Space'' then st\<lparr> spaceDown := False, isPanning := False, lastPt := None \<rparr>
      else st)"

definition pointerdown_listener :: "int \<Rightarrow> real \<Rightarrow> real \<Rightarrow> 'a AppState \<Rightarrow> 'a AppState" where
  "pointerdown_listener button clientX clientY st =
     (if button = 0 \<and> spaceDown st
      then st\<lparr> isPanning := True, lastPt := Some \<lparr> pt_x = clientX, pt_y = clientY \<rparr> \<rparr>
      else st)"

definition pointermove_listener :: "real \<Rightarrow> real \<Rightarrow> 'a AppState \<Rightarrow> 'a AppState" where
  "pointermove_listener clientX clientY st =
     (if isPanning st \<and> lastPt st \<noteq> None \<and> batch st \<noteq> None
      then
        (let dx = clientX - pt_x (the (lastPt st));
             dy = clientY - pt_y (the (lastPt st));
             st1 = push (camera_pan_by_screen_delta \<lparr> pt_x = dx, pt_y = dy \<rparr>) st
         in st1\<lparr> lastPt := Some \<lparr> pt_x = clientX, pt_y = clientY \<rparr> \<rparr>)
      else st)"

definition pointerup_listener :: "'a AppState \<Rightarrow> 'a AppState" where
  "pointerup_listener st =
     (if isPanning st then st\<lparr> isPanning := False, lastPt := None \<rparr> else st)"

definition pointercancel_listener :: "'a AppState \<Rightarrow> 'a AppState" where
  "pointercancel_listener st =
     (if isPanning st then st\<lparr> isPanning := False, lastPt := None \<rparr> else st)"

text \<open>
  The wheel listener; \<open>rect_left\<close> and \<open>rect_top\<close> are what
  \<open>canvasRef.getBoundingClientRect()\<close> returns at that moment.
\<close>

definition wheel_listener ::
  "real \<Rightarrow> real \<Rightarrow> real \<Rightarrow> real \<Rightarrow> real \<Rightarrow> 'a AppState \<Rightarrow> 'a AppState" where
  "wheel_listener clientX clientY deltaY rect_left rect_top st =
     (if batch st = None then st
      else
        (let pivot = \<lparr> pt_x = clientX - rect_left, pt_y = clientY - rect_top \<rparr>;
             zoomMultiplier = Math_exp (- deltaY * 0.0015)
         in push (camera_zoom_at_screen_point pivot zoomMultiplier) st))"

subsection \<open>The frame loop\<close>

definition requestAnimationFrame :: "'a AppState \<Rightarrow> nat \<times> 'a AppState" where
  "requestAnimationFrame st =
     (let h = Suc (raf_last st)
      in (h, st\<lparr> raf_last := h, raf_callbacks := raf_callbacks st @ [h] \<rparr>))"

definition cancelAnimationFrame :: "nat \<Rightarrow> 'a AppState \<Rightarrow> 'a AppState" where
  "cancelAnimationFrame h st = st\<lparr> raf_callbacks := removeAll h (raf_callbacks st) \<rparr>"

text \<open>
  Lines 141 to 154, the \<open>try\<close> statement of \<open>frame\<close>. \<open>frame\<close> is created after
  \<open>app\<close> (line 136), so \<open>app\<close> is there whenever it runs; the model leaves the state
  alone otherwise.
\<close>

definition try_tick :: "('a, 'e) Env \<Rightarrow> 'a AppState \<Rightarrow> 'a AppState" where
  "try_tick env st =
     (case app st of
        None \<Rightarrow> st
      | Some a \<Rightarrow>
          (case app_tick env a (batch_events st) of
             (a', Inr camera) \<Rightarrow>
               (let st1 = st\<lparr> app := Some a', ticks := ticks st @ [batch_events st] \<rparr>;
                    st2 = (if batch st1 \<noteq> None then clear_events st1 else st1);
                    pan = view_pan camera;
                    zoom = view_zoom camera
                in st2\<lparr> cameraText :=
                     ''pan=('' @ toFixed env (pt_x pan) 2 @ '', '' @ toFixed env (pt_y pan) 2
                     @ ''), zoom='' @ toFixed env zoom 3 \<rparr>)
           | (a', Inl err) \<Rightarrow>
               st\<lparr> app := Some a', ticks := ticks st @ [batch_events st],
                   cameraText := ''tick error: '' @ String_of env err \<rparr>))"

text \<open>Lines 139 to 157.\<close>

definition frame :: "('a, 'e) Env \<Rightarrow> 'a AppState \<Rightarrow> 'a AppState" where
  "frame env st =
     (if \<not> running st then st
      else
        (let st1 = try_tick env st;
             (h, st2) = requestAnimationFrame st1
         in st2\<lparr> rafId := h \<rparr>))"

subsection \<open>Initialisation and cleanup\<close>

text \<open>Lines 132 to 134: the module is loaded and \<open>setVer(m.version())\<close> runs.\<close>

definition module_ready :: "string \<Rightarrow> 'a AppState \<Rightarrow> 'a AppState" where
  "module_ready version st = st\<lparr> ver := version, init_stage := 1 \<rparr>"

text \<open>
  Lines 136 to 159: \<open>m.App.new\<close> has resolved to \<open>a\<close>; \<open>batch = { events: [] }\<close>
  allocates an array and an object; the first frame is requested.
\<close>

definition app_ready :: "'a \<Rightarrow> 'a AppState \<Rightarrow> 'a AppState" where
  "app_ready a st =
     (let r = next_ref st;
          b = Suc r;
          st1 = st\<lparr> app := Some a, arrays := (arrays st)(r \<mapsto> []),
                    objects := (objects st)(b \<mapsto> r), next_ref := Suc b,
                    batch := Some b, init_stage := 2 \<rparr>;
          (h, st2) = requestAnimationFrame st1
      in st2\<lparr> rafId := h \<rparr>)"

text \<open>Lines 162 to 168. \<open>abort()\<close> removes every listener registered with the signal.\<close>

definition onCleanup :: "'a AppState \<Rightarrow> 'a AppState" where
  "onCleanup st =
     (let st1 = st\<lparr> running := False \<rparr>;
          st2 = (if rafId st1 \<noteq> 0 then cancelAnimationFrame (rafId st1) st1 else st1)
      in st2\<lparr> listeners := [] \<rparr>)"

subsection \<open>The event loop\<close>

text \<open>
  Everything runs on one thread, one task at a time. A task is an event delivered to a
  listener that is still registered, a resumption of the \<open>async\<close> function, an
  animation frame callback that is still registered, or the cleanup.
\<close>

datatype 'a Action =
    KeyDown string
  | KeyUp string
  | PointerDown int real real
  | PointerMove real real
  | PointerUp
  | PointerCancel
  | Wheel real real real real real
  | ModuleReady string
  | AppReady 'a
  | AnimationFrame nat
  | Cleanup

fun step :: "('a, 'e) Env \<Rightarrow> 'a Action \<Rightarrow> 'a AppState \<Rightarrow> 'a AppState" where
  "step env (KeyDown code) st =
     (if (Window, ''keydown'') \<in> set (listeners st) then keydown_listener code st else st)"
| "step env (KeyUp code) st =
     (if (Window, ''keyup'') \<in> set (listeners st) then keyup_listener code st else st)"
| "step env (PointerDown button clientX clientY) st =
     (if (Canvas, ''pointerdown'') \<in> set (listeners st)
      then pointerdown_listener button clientX clientY st else st)"
| "step env (PointerMove clientX clientY) st =
     (if (Canvas, ''pointermove'') \<in> set (listeners st)
      then pointermove_listener clientX clientY st else st)"
| "step env PointerUp st =
     (if (Canvas, ''pointerup'') \<in> set (listeners st) then pointerup_listener st else st)"
| "step env PointerCancel st =
     (if (Canvas, ''pointercancel'') \<in> set (listeners st)
      then pointercancel_listener st else st)"
| "step env (Wheel clientX clientY deltaY rect_left rect_top) st =
     (if (Canvas, ''wheel'') \<in> set (listeners st)
      then wheel_listener clientX clientY deltaY rect_left rect_top st else st)"
| "step env (ModuleReady version) st =
     (if init_stage st = 0 then module_ready version st else st)"
| "step env (AppReady a) st =
     (if init_stage st = 1 then app_ready a st else st)"
| "step env (AnimationFrame h) st =
     (if h \<in> set (raf_callbacks st)
      then frame env (st\<lparr> raf_callbacks := removeAll h (raf_callbacks st) \<rparr>) else st)"
| "step env Cleanup st = onCleanup st"

fun run :: "('a, 'e) Env \<Rightarrow> 'a Action list \<Rightarrow> 'a AppState \<Rightarrow> 'a AppState" where
  "run env [] st = st"
| "run env (act # acts) st = run env acts (step env act st)"

subsection \<open>Auxiliary definitions for the statements\<close>

text \<open>
  The pan events of one drag that starts with the sample point \<open>p\<close> and moves through
  the pointer positions \<open>qs\<close>: each carries the difference to the position before it.
\<close>

fun drag_deltas :: "Point \<Rightarrow> Point list \<Rightarrow> InputEvent list" where
  "drag_deltas p [] = []"
| "drag_deltas p (q # qs) =
     camera_pan_by_screen_delta \<lparr> pt_x = pt_x q - pt_x p, pt_y = pt_y q - pt_y p \<rparr>
       # drag_deltas q qs"

text \<open>
  The part of the state that line 136 and the lines after it have not touched yet:
  no batch, no array, no wasm object, no frame callback, no tick so far.
\<close>

definition uninitialised :: "'a AppState \<Rightarrow> bool" where
  "uninitialised st \<longleftrightarrow>
     batch st = None \<and> arrays st = Map.empty \<and> objects st = Map.empty \<and> ticks st = []
     \<and> raf_callbacks st = [] \<and> rafId st = 0 \<and> next_ref st = 0 \<and> app st = None"

text \<open>
  Two wasm modules for the examples: one whose \<open>tick\<close> always throws the string
  \<open>lost surface\<close>, one whose \<open>tick\<close> always returns the default view.
\<close>

definition env_throw :: "(unit, string) Env" where
  "env_throw =
     \<lparr> app_tick = (\<lambda>a evs. (a, Inl ''lost surface'')), String_of = (\<lambda>e. e),
       toFixed = (\<lambda>x n. ''?'') \<rparr>"

definition env_ok :: "(unit, string) Env" where
  "env_ok =
     \<lparr> app_tick =
         (\<lambda>a evs. (a, Inr \<lparr> view_pan = \<lparr> pt_x = 0, pt_y = 0 \<rparr>, view_zoom = 1 \<rparr>)),
       String_of = (\<lambda>e. e), toFixed = (\<lambda>x n. ''?'') \<rparr>"

section \<open>Properties of the shader\<close>

lemma vs_main_pos:
  "pos (vs_main u c p s col) = vec4
     (((vx p + vx c * vx s - vx (pan u)) * zoom u / vx (canvas u)) * 2 - 1)
     (1 - ((vy p + vy c * vy s - vy (pan u)) * zoom u / vy (canvas u)) * 2) 0 1"
  by (simp add: vs_main_def world_of_def screen_of_def ndc_of_def
      vec2_add_def vec2_sub_def vec2_mul_def vec2_scale_def)

lemma ndc_of_components:
  "vx (ndc_of u s) = (vx s / vx (canvas u)) * 2 - 1"
  "vy (ndc_of u s) = 1 - (vy s / vy (canvas u)) * 2"
  by (simp_all add: ndc_of_def)

lemma ndc_y_decreasing:
  assumes "0 < vy (canvas u)" and "vy s < vy s'"
  shows "vy (ndc_of u s') < vy (ndc_of u s)"
proof -
  from assms have "vy s * 2 / vy (canvas u) < vy s' * 2 / vy (canvas u)"
    by (simp add: divide_strict_right_mono)
  then show ?thesis
    by (simp add: ndc_of_components)
qed

text \<open>
  C1. The vertex stage places every corner of every instance by the pipeline of
  section 4.3: the clip-space position is \<open>(ndc.x, ndc.y, 0, 1)\<close> with
  \<open>world = position + corner_offset * size\<close>, \<open>screen = (world - pan) * zoom\<close>,
  \<open>ndc.x = (screen.x / width) * 2 - 1\<close> and \<open>ndc.y = 1 - (screen.y / height) * 2\<close>,
  for every camera uniform whose canvas has non-zero width and height, every instance
  and every corner offset. The Y axis is flipped: on a canvas of positive height
  (a canvas extent is a pixel count, so non-zero means positive) a larger
  \<open>screen.y\<close> gives a strictly smaller \<open>ndc.y\<close>.
\<close>

theorem vs_main_transform_pipeline:
  assumes "vx (canvas u) \<noteq> 0" and "vy (canvas u) \<noteq> 0"
  shows "pos (vs_main u corner_offset (position inst) (size inst) (color inst)) =
           vec4
             (spec_ndc_x
                (spec_screen
                   (spec_world (vx (position inst)) (vx corner_offset) (vx (size inst)))
                   (vx (pan u)) (zoom u))
                (vx (canvas u)))
             (spec_ndc_y
                (spec_screen
                   (spec_world (vy (position inst)) (vy corner_offset) (vy (size inst)))
                   (vy (pan u)) (zoom u))
                (vy (canvas u)))
             0 1
         \<and> (0 < vy (canvas u) \<longrightarrow>
              (\<forall>s s'. vy s < vy s' \<longrightarrow> vy (ndc_of u s') < vy (ndc_of u s)))"
proof (intro conjI impI allI)
  show "pos (vs_main u corner_offset (position inst) (size inst) (color inst)) =
           vec4
             (spec_ndc_x
                (spec_screen
                   (spec_world (vx (position inst)) (vx corner_offset) (vx (size inst)))
                   (vx (pan u)) (zoom u))
                (vx (canvas u)))
             (spec_ndc_y
                (spec_screen
                   (spec_world (vy (position inst)) (vy corner_offset) (vy (size inst)))
                   (vy (pan u)) (zoom u))
                (vy (canvas u)))
             0 1"
    by (simp add: vs_main_pos spec_ndc_x_def spec_ndc_y_def spec_screen_def spec_world_def)
next
  fix s s' :: vec2
  assume "0 < vy (canvas u)" and "vy s < vy s'"
  then show "vy (ndc_of u s') < vy (ndc_of u s)"
    by (rule ndc_y_decreasing)
qed

theorem vs_main_transform_pipeline_witness:
  "vx (canvas \<lparr> pan = vec2 0 0, zoom = 1, pad0 = 0, canvas = vec2 800 600, pad1 = vec2 0 0 \<rparr>) \<noteq> 0
   \<and> vy (canvas \<lparr> pan = vec2 0 0, zoom = 1, pad0 = 0, canvas = vec2 800 600, pad1 = vec2 0 0 \<rparr>) \<noteq> 0
   \<and> pos (vs_main \<lparr> pan = vec2 0 0, zoom = 1, pad0 = 0, canvas = vec2 800 600, pad1 = vec2 0 0 \<rparr>
        (vec2 1 1) (vec2 100 100) (vec2 50 50) (vec4 1 0 0 1))
       = vec4 (- 0.625) 0.5 0 1
   \<and> 0 < vy (canvas \<lparr> pan = vec2 0 0, zoom = 1, pad0 = 0, canvas = vec2 800 600, pad1 = vec2 0 0 \<rparr>)
   \<and> vy (vec2 0 150) < vy (vec2 0 450)
   \<and> vy (ndc_of \<lparr> pan = vec2 0 0, zoom = 1, pad0 = 0, canvas = vec2 800 600, pad1 = vec2 0 0 \<rparr>
         (vec2 0 450))
       < vy (ndc_of \<lparr> pan = vec2 0 0, zoom = 1, pad0 = 0, canvas = vec2 800 600, pad1 = vec2 0 0 \<rparr>
         (vec2 0 150))"
  using vs_main_transform_pipeline
    [of "\<lparr> pan = vec2 0 0, zoom = 1, pad0 = 0, canvas = vec2 800 600, pad1 = vec2 0 0 \<rparr>"
        "vec2 1 1"
        "\<lparr> position = vec2 100 100, size = vec2 50 50, color = vec4 1 0 0 1 \<rparr>"]
  by (simp add: spec_ndc_x_def spec_ndc_y_def spec_screen_def spec_world_def)

lemma fragment_color_constant: "fragment_color u c inst = vec4 0.2 0.6 0.9 1"
  by (simp add: fragment_color_def fs_main_def)

text \<open>
  C4. The claim is that a fragment of an instance's quad is written with that
  instance's RGBA colour. The fragment stage returns the constant
  \<open>(0.2, 0.6, 0.9, 1.0)\<close> whatever the instance (lemma \<open>fragment_color_constant\<close>):
  a red instance is drawn in that constant colour.
\<close>

theorem fs_main_ignores_instance_color:
  "fragment_color
     \<lparr> pan = vec2 0 0, zoom = 1, pad0 = 0, canvas = vec2 800 600, pad1 = vec2 0 0 \<rparr>
     (vec2 0 0)
     \<lparr> position = vec2 100 100, size = vec2 50 50, color = vec4 1 0 0 1 \<rparr>
   = vec4 0.2 0.6 0.9 1
   \<and> fragment_color
     \<lparr> pan = vec2 0 0, zoom = 1, pad0 = 0, canvas = vec2 800 600, pad1 = vec2 0 0 \<rparr>
     (vec2 0 0)
     \<lparr> position = vec2 100 100, size = vec2 50 50, color = vec4 1 0 0 1 \<rparr>
   \<noteq> color \<lparr> position = vec2 100 100, size = vec2 50 50, color = vec4 1 0 0 1 \<rparr>"
  by (simp add: fragment_color_def fs_main_def)

section \<open>Properties of the zoom operation\<close>

lemma screen_of_camera_uniform:
  "screen_of (camera_uniform cam cv) w =
     vec2 ((vx w - pt_x (view_pan cam)) * view_zoom cam)
          ((vy w - pt_y (view_pan cam)) * view_zoom cam)"
  by (simp add: screen_of_def camera_uniform_def vec2_sub_def vec2_scale_def)

lemma zoomAtScreenPoint_fields:
  "view_zoom (zoomAtScreenPoint cam p m) = view_zoom cam * m"
  "pt_x (view_pan (zoomAtScreenPoint cam p m)) =
     pt_x (view_pan cam) + pt_x p / view_zoom cam - pt_x p / (view_zoom cam * m)"
  "pt_y (view_pan (zoomAtScreenPoint cam p m)) =
     pt_y (view_pan cam) + pt_y p / view_zoom cam - pt_y p / (view_zoom cam * m)"
  by (simp_all add: zoomAtScreenPoint_def Let_def)

lemma pivot_component:
  fixes w a z m q :: real
  assumes z: "0 < z" and m: "0 < m" and at: "(w - a) * z = q"
  shows "w = a + q / z" and "(w - (a + q / z - q / (z * m))) * (z * m) = q"
proof -
  from z at show w: "w = a + q / z"
    by (simp add: field_simps)
  have d: "w - (a + q / z - q / (z * m)) = q / (z * m)"
    by (simp add: w)
  show "(w - (a + q / z - q / (z * m))) * (z * m) = q"
    unfolding d using z m by simp
qed

text \<open>
  C2. Pivot invariance of the zoom algorithm of section 4.1 under the shader's screen
  transform \<open>screen = (world - pan) * zoom\<close>: for a camera with \<open>zoom > 0\<close>, any
  pivot and any multiplier \<open>> 0\<close>, a world point \<open>w\<close> that the shader maps to
  \<open>pivot_px\<close> before the update is the point \<open>pan + pivot_px / zoom_old\<close> (so it is
  unique), and the shader still maps it to \<open>pivot_px\<close> after the update.
\<close>

theorem zoomAtScreenPoint_pivot_invariant:
  assumes "0 < view_zoom cam" and "0 < multiplier"
    and "screen_of (camera_uniform cam cv) w = to_vec2 pivot"
  shows "w = vec2 (pt_x (view_pan cam) + pt_x pivot / view_zoom cam)
                  (pt_y (view_pan cam) + pt_y pivot / view_zoom cam)
         \<and> screen_of (camera_uniform (zoomAtScreenPoint cam pivot multiplier) cv) w
             = to_vec2 pivot"
proof -
  from assms(3) have x: "(vx w - pt_x (view_pan cam)) * view_zoom cam = pt_x pivot"
    and y: "(vy w - pt_y (view_pan cam)) * view_zoom cam = pt_y pivot"
    by (simp_all add: screen_of_camera_uniform to_vec2_def)
  note px = pivot_component [OF assms(1) assms(2) x]
  note py = pivot_component [OF assms(1) assms(2) y]
  have "w = vec2 (vx w) (vy w)"
    by simp
  with px(1) py(1) have unique:
    "w = vec2 (pt_x (view_pan cam) + pt_x pivot / view_zoom cam)
              (pt_y (view_pan cam) + pt_y pivot / view_zoom cam)"
    by simp
  have "screen_of (camera_uniform (zoomAtScreenPoint cam pivot multiplier) cv) w
          = to_vec2 pivot"
    unfolding screen_of_camera_uniform zoomAtScreenPoint_fields to_vec2_def
    using px(2) py(2) by simp
  with unique show ?thesis
    by (rule conjI)
qed

theorem zoomAtScreenPoint_pivot_invariant_witness:
  "0 < view_zoom \<lparr> view_pan = \<lparr> pt_x = 50, pt_y = 0 \<rparr>, view_zoom = 1 \<rparr>
   \<and> (0::real) < 2
   \<and> screen_of (camera_uniform \<lparr> view_pan = \<lparr> pt_x = 50, pt_y = 0 \<rparr>, view_zoom = 1 \<rparr>
         (vec2 800 600)) (vec2 150 100) = to_vec2 \<lparr> pt_x = 100, pt_y = 100 \<rparr>
   \<and> screen_of (camera_uniform
         (zoomAtScreenPoint \<lparr> view_pan = \<lparr> pt_x = 50, pt_y = 0 \<rparr>, view_zoom = 1 \<rparr>
            \<lparr> pt_x = 100, pt_y = 100 \<rparr> 2)
         (vec2 800 600)) (vec2 150 100) = to_vec2 \<lparr> pt_x = 100, pt_y = 100 \<rparr>
   \<and> view_pan (zoomAtScreenPoint \<lparr> view_pan = \<lparr> pt_x = 50, pt_y = 0 \<rparr>, view_zoom = 1 \<rparr>
            \<lparr> pt_x = 100, pt_y = 100 \<rparr> 2) = \<lparr> pt_x = 100, pt_y = 50 \<rparr>"
  using zoomAtScreenPoint_pivot_invariant
    [of "\<lparr> view_pan = \<lparr> pt_x = 50, pt_y = 0 \<rparr>, view_zoom = 1 \<rparr>" 2 "vec2 800 600"
        "vec2 150 100" "\<lparr> pt_x = 100, pt_y = 100 \<rparr>"]
  by (simp add: screen_of_camera_uniform to_vec2_def zoomAtScreenPoint_def Let_def)

section \<open>Properties of the frame loop\<close>

lemmas app_defs = onMount_def module_ready_def app_ready_def requestAnimationFrame_def Let_def
  keydown_listener_def keyup_listener_def pointerdown_listener_def pointermove_listener_def
  pointerup_listener_def pointercancel_listener_def wheel_listener_def push_def clear_events_def
  events_ref_def batch_events_def frame_def try_tick_def onCleanup_def cancelAnimationFrame_def

lemma frame_running:
  "running st \<Longrightarrow> frame env st =
     (try_tick env st)\<lparr> raf_last := Suc (raf_last (try_tick env st)),
        raf_callbacks := raf_callbacks (try_tick env st) @ [Suc (raf_last (try_tick env st))],
        rafId := Suc (raf_last (try_tick env st)) \<rparr>"
  by (simp add: frame_def requestAnimationFrame_def Let_def)

lemma try_tick_throw:
  assumes "app st = Some a" and "app_tick env a (batch_events st) = (a', Inl err)"
  shows "try_tick env st =
           st\<lparr> app := Some a', ticks := ticks st @ [batch_events st],
               cameraText := ''tick error: '' @ String_of env err \<rparr>"
  using assms by (simp add: try_tick_def)

lemma try_tick_ok:
  assumes "app st = Some a" and "batch st = Some b" and "objects st b = Some r"
    and "arrays st r = Some evs" and "app_tick env a (Some evs) = (a', Inr out)"
  shows "try_tick env st =
           st\<lparr> app := Some a', ticks := ticks st @ [Some evs],
               arrays := (arrays st)(r \<mapsto> []),
               cameraText := ''pan=('' @ toFixed env (pt_x (view_pan out)) 2 @ '', ''
                  @ toFixed env (pt_y (view_pan out)) 2 @ ''), zoom=''
                  @ toFixed env (view_zoom out) 3 \<rparr>"
  using assms
  by (simp add: try_tick_def batch_events_def events_ref_def clear_events_def Let_def)

lemma try_tick_ticks:
  "app st = Some a \<Longrightarrow> ticks (try_tick env st) = ticks st @ [batch_events st]"
  by (simp add: try_tick_def Let_def clear_events_def
      split: prod.splits sum.splits option.splits)

lemma frame_throw_keeps_batch:
  assumes "running st" and "app st = Some a"
    and "app_tick env a (batch_events st) = (a', Inl err)"
  shows "arrays (frame env st) = arrays st"
    and "batch_events (frame env st) = batch_events st"
proof -
  from assms have "batch (frame env st) = batch st"
    and "objects (frame env st) = objects st"
    and "arrays (frame env st) = arrays st"
    by (simp_all add: frame_running try_tick_throw)
  then show "arrays (frame env st) = arrays st"
    and "batch_events (frame env st) = batch_events st"
    by (simp_all add: batch_events_def events_ref_def split: option.splits)
qed

text \<open>
  C3. The claim is that a frame whose tick throws still empties the batch before the
  next frame is scheduled, so that no event of that batch reaches the next tick. The
  truncation of line 144 is inside the \<open>try\<close> block after the call, and the \<open>catch\<close>
  block does not truncate (lemma \<open>frame_throw_keeps_batch\<close>): with a tick that throws, one pan event pushed before frame 1
  is still in the batch after frame 1, and frame 2 hands the same event to \<open>tick\<close> again.
\<close>

theorem failed_tick_keeps_batch:
  "batch_events (run env_throw
      [ModuleReady ''0.1.0'', AppReady (), KeyDown ''Space'', PointerDown 0 10 10,
       PointerMove 15 12, AnimationFrame 1] onMount)
     = Some [camera_pan_by_screen_delta \<lparr> pt_x = 5, pt_y = 2 \<rparr>]
   \<and> ticks (run env_throw
      [ModuleReady ''0.1.0'', AppReady (), KeyDown ''Space'', PointerDown 0 10 10,
       PointerMove 15 12, AnimationFrame 1, AnimationFrame 2] onMount)
     = [Some [camera_pan_by_screen_delta \<lparr> pt_x = 5, pt_y = 2 \<rparr>],
        Some [camera_pan_by_screen_delta \<lparr> pt_x = 5, pt_y = 2 \<rparr>]]"
  by (simp add: app_defs env_throw_def)

text \<open>
  C5. When \<open>app.tick\<close> throws in a frame of the running loop, \<open>frame\<close> completes:
  the HUD text becomes \<open>tick error: \<close> followed by \<open>String(err)\<close> for the thrown value,
  the loop is still running, and a new animation frame callback has been requested,
  whose handle is stored in \<open>rafId\<close> and is pending.
\<close>

theorem frame_tick_error:
  assumes "running st" and "app st = Some a"
    and "app_tick env a (batch_events st) = (a', Inl err)"
  shows "cameraText (frame env st) = ''tick error: '' @ String_of env err
         \<and> running (frame env st)
         \<and> rafId (frame env st) = Suc (raf_last st)
         \<and> raf_callbacks (frame env st) = raf_callbacks st @ [Suc (raf_last st)]
         \<and> rafId (frame env st) \<in> set (raf_callbacks (frame env st))"
  using assms
  by (simp add: frame_running try_tick_throw)

theorem frame_tick_error_witness:
  "running (run env_throw [ModuleReady ''0.1.0'', AppReady ()] onMount)
   \<and> app (run env_throw [ModuleReady ''0.1.0'', AppReady ()] onMount) = Some ()
   \<and> app_tick env_throw ()
        (batch_events (run env_throw [ModuleReady ''0.1.0'', AppReady ()] onMount))
       = ((), Inl ''lost surface'')
   \<and> cameraText (frame env_throw (run env_throw [ModuleReady ''0.1.0'', AppReady ()] onMount))
       = ''tick error: lost surface''
   \<and> raf_callbacks (frame env_throw (run env_throw [ModuleReady ''0.1.0'', AppReady ()] onMount))
       = [1, 2]"
  using frame_tick_error
    [of "run env_throw [ModuleReady ''0.1.0'', AppReady ()] onMount" "()" env_throw "()"
        "''lost surface''"]
  by (simp add: onMount_def module_ready_def app_ready_def requestAnimationFrame_def Let_def
      env_throw_def)

text \<open>
  C7. A frame of the running loop whose tick succeeds hands the events of the batch to
  that tick and then clears the batch in place: \<open>batch\<close> refers to the same object, the
  object's \<open>events\<close> field to the same array, nothing is allocated, and that array is
  empty. The events are consumed by this tick only: the tick of the frame that follows
  directly is given the empty batch.
\<close>

theorem frame_clears_in_place:
  assumes "running st" and "app st = Some a" and "batch st = Some b"
    and "objects st b = Some r" and "arrays st r = Some evs"
    and "app_tick env a (Some evs) = (a', Inr out)"
  shows "ticks (frame env st) = ticks st @ [Some evs]
         \<and> batch (frame env st) = Some b
         \<and> objects (frame env st) = objects st
         \<and> arrays (frame env st) = (arrays st)(r \<mapsto> [])
         \<and> next_ref (frame env st) = next_ref st
         \<and> batch_events (frame env st) = Some []
         \<and> ticks (frame env (frame env st)) = ticks st @ [Some evs, Some []]"
proof -
  note ok = try_tick_ok [OF assms(2-6)]
  have f: "frame env st = (try_tick env st)\<lparr> raf_last := Suc (raf_last st),
        raf_callbacks := raf_callbacks st @ [Suc (raf_last st)],
        rafId := Suc (raf_last st) \<rparr>"
    using assms(1) by (simp add: frame_running ok)
  have 1: "ticks (frame env st) = ticks st @ [Some evs]"
    and 2: "batch (frame env st) = Some b"
    and 3: "objects (frame env st) = objects st"
    and 4: "arrays (frame env st) = (arrays st)(r \<mapsto> [])"
    and 5: "next_ref (frame env st) = next_ref st"
    and 6: "running (frame env st)"
    and 7: "app (frame env st) = Some a'"
    using assms(1,3,4) by (simp_all add: f ok)
  from 2 3 4 assms(4) have 8: "batch_events (frame env st) = Some []"
    by (simp add: batch_events_def events_ref_def)
  have "ticks (frame env (frame env st)) = ticks (try_tick env (frame env st))"
    using 6 by (simp add: frame_running)
  also have "\<dots> = ticks (frame env st) @ [batch_events (frame env st)]"
    using 7 by (rule try_tick_ticks)
  finally have 9: "ticks (frame env (frame env st)) = ticks st @ [Some evs, Some []]"
    by (simp add: 1 8)
  from 1 2 3 4 5 8 9 show ?thesis
    by simp
qed

theorem frame_clears_in_place_witness:
  "running (run env_ok [ModuleReady ''0.1.0'', AppReady (), KeyDown ''Space'',
              PointerDown 0 10 10, PointerMove 15 12] onMount)
   \<and> app (run env_ok [ModuleReady ''0.1.0'', AppReady (), KeyDown ''Space'',
              PointerDown 0 10 10, PointerMove 15 12] onMount) = Some ()
   \<and> batch (run env_ok [ModuleReady ''0.1.0'', AppReady (), KeyDown ''Space'',
              PointerDown 0 10 10, PointerMove 15 12] onMount) = Some 1
   \<and> objects (run env_ok [ModuleReady ''0.1.0'', AppReady (), KeyDown ''Space'',
              PointerDown 0 10 10, PointerMove 15 12] onMount) 1 = Some 0
   \<and> arrays (run env_ok [ModuleReady ''0.1.0'', AppReady (), KeyDown ''Space'',
              PointerDown 0 10 10, PointerMove 15 12] onMount) 0
       = Some [camera_pan_by_screen_delta \<lparr> pt_x = 5, pt_y = 2 \<rparr>]
   \<and> app_tick env_ok () (Some [camera_pan_by_screen_delta \<lparr> pt_x = 5, pt_y = 2 \<rparr>])
       = ((), Inr \<lparr> view_pan = \<lparr> pt_x = 0, pt_y = 0 \<rparr>, view_zoom = 1 \<rparr>)
   \<and> ticks (frame env_ok (run env_ok [ModuleReady ''0.1.0'', AppReady (), KeyDown ''Space'',
              PointerDown 0 10 10, PointerMove 15 12] onMount))
       = [Some [camera_pan_by_screen_delta \<lparr> pt_x = 5, pt_y = 2 \<rparr>]]
   \<and> batch (frame env_ok (run env_ok [ModuleReady ''0.1.0'', AppReady (), KeyDown ''Space'',
              PointerDown 0 10 10, PointerMove 15 12] onMount)) = Some 1
   \<and> arrays (frame env_ok (run env_ok [ModuleReady ''0.1.0'', AppReady (), KeyDown ''Space'',
              PointerDown 0 10 10, PointerMove 15 12] onMount)) 0 = Some []
   \<and> ticks (frame env_ok (frame env_ok (run env_ok [ModuleReady ''0.1.0'', AppReady (),
              KeyDown ''Space'', PointerDown 0 10 10, PointerMove 15 12] onMount)))
       = [Some [camera_pan_by_screen_delta \<lparr> pt_x = 5, pt_y = 2 \<rparr>], Some []]"
  using frame_clears_in_place
    [of "run env_ok [ModuleReady ''0.1.0'', AppReady (), KeyDown ''Space'',
              PointerDown 0 10 10, PointerMove 15 12] onMount"
        "()" 1 0 "[camera_pan_by_screen_delta \<lparr> pt_x = 5, pt_y = 2 \<rparr>]" env_ok "()"
        "\<lparr> view_pan = \<lparr> pt_x = 0, pt_y = 0 \<rparr>, view_zoom = 1 \<rparr>"]
  by (simp add: app_defs env_ok_def)

section \<open>Properties of the wheel listener\<close>













section \<open>Properties of the listeners\<close>

lemma pointermove_effect:
  assumes "isPanning st" and "lastPt st = Some p0" and "batch st = Some b"
    and "objects st b = Some r" and "arrays st r = Some evs"
  shows "pointermove_listener cx cy st =
           st\<lparr> arrays := (arrays st)(r \<mapsto> evs @
                   [camera_pan_by_screen_delta \<lparr> pt_x = cx - pt_x p0, pt_y = cy - pt_y p0 \<rparr>]),
               lastPt := Some \<lparr> pt_x = cx, pt_y = cy \<rparr> \<rparr>"
  using assms by (simp add: pointermove_listener_def push_def events_ref_def Let_def)

lemma drag_deltas_sum:
  "(\<Sum>e\<leftarrow>drag_deltas p ps. pt_x (delta_px e)) = pt_x (last (p # ps)) - pt_x p"
  "(\<Sum>e\<leftarrow>drag_deltas p ps. pt_y (delta_px e)) = pt_y (last (p # ps)) - pt_y p"
  by (induction ps arbitrary: p) simp_all

lemma drag_run:
  assumes "(Canvas, ''pointermove'') \<in> set (listeners st)"
    and "isPanning st" and "lastPt st = Some p0" and "batch st = Some b"
    and "objects st b = Some r" and "arrays st r = Some evs"
  shows "arrays (run env (map (\<lambda>p. PointerMove (pt_x p) (pt_y p)) ps) st) r
           = Some (evs @ drag_deltas p0 ps)
         \<and> lastPt (run env (map (\<lambda>p. PointerMove (pt_x p) (pt_y p)) ps) st)
           = Some (last (p0 # ps))"
  using assms
proof (induction ps arbitrary: st p0 evs)
  case Nil
  then show ?case by simp
next
  case (Cons q qs)
  let ?st = "pointermove_listener (pt_x q) (pt_y q) st"
  have eff: "?st = st\<lparr> arrays := (arrays st)(r \<mapsto> evs @
                   [camera_pan_by_screen_delta \<lparr> pt_x = pt_x q - pt_x p0, pt_y = pt_y q - pt_y p0 \<rparr>]),
               lastPt := Some \<lparr> pt_x = pt_x q, pt_y = pt_y q \<rparr> \<rparr>"
    using Cons.prems(2-6) by (rule pointermove_effect)
  have q: "\<lparr> pt_x = pt_x q, pt_y = pt_y q \<rparr> = q"
    by simp
  have "arrays (run env (map (\<lambda>p. PointerMove (pt_x p) (pt_y p)) qs) ?st) r
           = Some ((evs @ [camera_pan_by_screen_delta \<lparr> pt_x = pt_x q - pt_x p0, pt_y = pt_y q - pt_y p0 \<rparr>]) @ drag_deltas q qs)
         \<and> lastPt (run env (map (\<lambda>p. PointerMove (pt_x p) (pt_y p)) qs) ?st)
           = Some (last (q # qs))"
    using Cons.prems by (intro Cons.IH) (simp_all add: eff q)
  with Cons.prems(1) show ?case
    by simp
qed

text \<open>
  C8. During an active pan (the listener is registered, \<open>isPanning\<close> is set, the
  sample point is \<open>p0\<close> and the batch exists), a pointer move to \<open>(cx, cy)\<close>
  appends one pan event whose \<open>delta_px\<close> is \<open>(cx, cy)\<close> minus the sample point, and
  makes \<open>(cx, cy)\<close> the sample point. Over the moves \<open>ps\<close> of an uninterrupted drag
  the appended events are the successive differences, the sample point ends at the last
  position, and the deltas add up to the last position minus the position at which the
  drag began, in each coordinate.
\<close>

theorem pointermove_deltas_telescope:
  assumes "(Canvas, ''pointermove'') \<in> set (listeners st)"
    and "isPanning st" and "lastPt st = Some p0" and "batch st = Some b"
    and "objects st b = Some r" and "arrays st r = Some evs"
  shows "step env (PointerMove cx cy) st =
           st\<lparr> arrays := (arrays st)(r \<mapsto> evs @
                   [camera_pan_by_screen_delta \<lparr> pt_x = cx - pt_x p0, pt_y = cy - pt_y p0 \<rparr>]),
               lastPt := Some \<lparr> pt_x = cx, pt_y = cy \<rparr> \<rparr>
         \<and> arrays (run env (map (\<lambda>p. PointerMove (pt_x p) (pt_y p)) ps) st) r
             = Some (evs @ drag_deltas p0 ps)
         \<and> lastPt (run env (map (\<lambda>p. PointerMove (pt_x p) (pt_y p)) ps) st)
             = Some (last (p0 # ps))
         \<and> (\<Sum>e\<leftarrow>drag_deltas p0 ps. pt_x (delta_px e)) = pt_x (last (p0 # ps)) - pt_x p0
         \<and> (\<Sum>e\<leftarrow>drag_deltas p0 ps. pt_y (delta_px e)) = pt_y (last (p0 # ps)) - pt_y p0"
proof -
  have one: "step env (PointerMove cx cy) st =
           st\<lparr> arrays := (arrays st)(r \<mapsto> evs @
                   [camera_pan_by_screen_delta \<lparr> pt_x = cx - pt_x p0, pt_y = cy - pt_y p0 \<rparr>]),
               lastPt := Some \<lparr> pt_x = cx, pt_y = cy \<rparr> \<rparr>"
    using assms(1) pointermove_effect [OF assms(2-6), of cx cy] by simp
  note many = drag_run [OF assms, of env ps]
  note sums = drag_deltas_sum [of p0 ps]
  from one many sums show ?thesis
    by (intro conjI) (rule one, simp_all only: many sums)
qed

theorem pointermove_deltas_telescope_witness:
  "(Canvas, ''pointermove'') \<in> set (listeners (run env_ok [ModuleReady ''0.1.0'', AppReady (),
        KeyDown ''Space'', PointerDown 0 10 10] onMount))
   \<and> isPanning (run env_ok [ModuleReady ''0.1.0'', AppReady (),
        KeyDown ''Space'', PointerDown 0 10 10] onMount)
   \<and> lastPt (run env_ok [ModuleReady ''0.1.0'', AppReady (),
        KeyDown ''Space'', PointerDown 0 10 10] onMount) = Some \<lparr> pt_x = 10, pt_y = 10 \<rparr>
   \<and> batch (run env_ok [ModuleReady ''0.1.0'', AppReady (),
        KeyDown ''Space'', PointerDown 0 10 10] onMount) = Some 1
   \<and> objects (run env_ok [ModuleReady ''0.1.0'', AppReady (),
        KeyDown ''Space'', PointerDown 0 10 10] onMount) 1 = Some 0
   \<and> arrays (run env_ok [ModuleReady ''0.1.0'', AppReady (),
        KeyDown ''Space'', PointerDown 0 10 10] onMount) 0 = Some []
   \<and> arrays (run env_ok
        (map (\<lambda>p. PointerMove (pt_x p) (pt_y p))
           [\<lparr> pt_x = 15, pt_y = 12 \<rparr>, \<lparr> pt_x = 20, pt_y = 30 \<rparr>])
        (run env_ok [ModuleReady ''0.1.0'', AppReady (),
           KeyDown ''Space'', PointerDown 0 10 10] onMount)) 0
       = Some [camera_pan_by_screen_delta \<lparr> pt_x = 5, pt_y = 2 \<rparr>,
               camera_pan_by_screen_delta \<lparr> pt_x = 5, pt_y = 18 \<rparr>]
   \<and> (\<Sum>e\<leftarrow>drag_deltas \<lparr> pt_x = 10, pt_y = 10 \<rparr>
              [\<lparr> pt_x = 15, pt_y = 12 \<rparr>, \<lparr> pt_x = 20, pt_y = 30 \<rparr>]. pt_x (delta_px e)) = 10
   \<and> (\<Sum>e\<leftarrow>drag_deltas \<lparr> pt_x = 10, pt_y = 10 \<rparr>
              [\<lparr> pt_x = 15, pt_y = 12 \<rparr>, \<lparr> pt_x = 20, pt_y = 30 \<rparr>]. pt_y (delta_px e)) = 20"
  using pointermove_deltas_telescope
    [of "run env_ok [ModuleReady ''0.1.0'', AppReady (),
           KeyDown ''Space'', PointerDown 0 10 10] onMount"
        "\<lparr> pt_x = 10, pt_y = 10 \<rparr>" 1 0 "[]" env_ok 15 12
        "[\<lparr> pt_x = 15, pt_y = 12 \<rparr>, \<lparr> pt_x = 20, pt_y = 30 \<rparr>]"]
  by (simp add: app_defs env_ok_def)

lemma step_uninitialised:
  assumes "uninitialised st" and "\<forall>a. act \<noteq> AppReady a"
  shows "uninitialised (step env act st)"
  using assms
  by (cases act) (simp_all add: uninitialised_def app_defs)

lemma run_uninitialised:
  assumes "uninitialised st" and "\<forall>a. AppReady a \<notin> set acts"
  shows "uninitialised (run env acts st)"
  using assms
proof (induction acts arbitrary: st)
  case Nil
  then show ?case by simp
next
  case (Cons act acts)
  from Cons.prems have "uninitialised (step env act st)"
    by (intro step_uninitialised) auto
  with Cons show ?case
    by simp
qed

lemma onMount_uninitialised: "uninitialised onMount"
  by (simp add: uninitialised_def onMount_def)

lemma app_ready_uninitialised:
  assumes "uninitialised st"
  shows "arrays (app_ready a st) = [0 \<mapsto> []]" and "batch_events (app_ready a st) = Some []"
    and "ticks (app_ready a st) = []"
  using assms by (simp_all add: uninitialised_def app_defs)

text \<open>
  C10. As long as the \<open>async\<close> function has not reached line 136 and the lines after
  it, whatever tasks run (key, pointer and wheel events, the module becoming ready,
  even the cleanup): \<open>batch\<close> stays \<open>null\<close>, no array holds any event, and no tick
  has run. When the \<open>async\<close> function then creates the batch, the only array there is
  is the new empty one, so the first tick can only be given events pushed afterwards.
\<close>

theorem no_events_before_init:
  assumes "\<forall>a. AppReady a \<notin> set acts"
  shows "batch (run env acts onMount) = None
         \<and> arrays (run env acts onMount) = Map.empty
         \<and> ticks (run env acts onMount) = []
         \<and> arrays (app_ready a (run env acts onMount)) = [0 \<mapsto> []]
         \<and> batch_events (app_ready a (run env acts onMount)) = Some []
         \<and> ticks (app_ready a (run env acts onMount)) = []"
proof -
  have u: "uninitialised (run env acts onMount)"
    using onMount_uninitialised assms by (rule run_uninitialised)
  then have "batch (run env acts onMount) = None"
    and "arrays (run env acts onMount) = Map.empty"
    and "ticks (run env acts onMount) = []"
    by (simp_all add: uninitialised_def)
  with app_ready_uninitialised [OF u, of a] show ?thesis
    by simp
qed

theorem no_events_before_init_witness:
  "(\<forall>a. AppReady a \<notin> set [KeyDown ''Space'', PointerDown 0 10 10, PointerMove 15 12,
                               Wheel 30 40 3 0 0, ModuleReady ''0.1.0''])
   \<and> isPanning (run env_ok [KeyDown ''Space'', PointerDown 0 10 10, PointerMove 15 12,
                               Wheel 30 40 3 0 0, ModuleReady ''0.1.0''] onMount)
   \<and> batch (run env_ok [KeyDown ''Space'', PointerDown 0 10 10, PointerMove 15 12,
                               Wheel 30 40 3 0 0, ModuleReady ''0.1.0''] onMount) = None
   \<and> arrays (run env_ok [KeyDown ''Space'', PointerDown 0 10 10, PointerMove 15 12,
                               Wheel 30 40 3 0 0, ModuleReady ''0.1.0''] onMount) = Map.empty
   \<and> batch_events (app_ready () (run env_ok [KeyDown ''Space'', PointerDown 0 10 10,
         PointerMove 15 12, Wheel 30 40 3 0 0, ModuleReady ''0.1.0''] onMount)) = Some []"
  using no_events_before_init
    [of "[KeyDown ''Space'', PointerDown 0 10 10, PointerMove 15 12,
          Wheel 30 40 3 0 0, ModuleReady ''0.1.0'']" env_ok "()"]
  by (simp add: app_defs)

section \<open>Properties of the cleanup\<close>

lemma step_after_cleanup:
  assumes "\<not> running st" and "listeners st = []"
  shows "\<not> running (step env act st) \<and> listeners (step env act st) = []
         \<and> ticks (step env act st) = ticks st
         \<and> cameraText (step env act st) = cameraText st"
  using assms
  by (cases act) (simp_all add: app_defs)

lemma run_after_cleanup:
  assumes "\<not> running st" and "listeners st = []"
  shows "\<not> running (run env acts st) \<and> listeners (run env acts st) = []
         \<and> ticks (run env acts st) = ticks st
         \<and> cameraText (run env acts st) = cameraText st"
  using assms
proof (induction acts arbitrary: st)
  case Nil
  then show ?case by simp
next
  case (Cons act acts)
  note s = step_after_cleanup [OF Cons.prems, of env act]
  from s have "\<not> running (step env act st)" and "listeners (step env act st) = []"
    by simp_all
  from Cons.IH [OF this] s show ?case
    by simp
qed

lemma cleanup_stops_ticks:
  "ticks (run env acts (onCleanup st)) = ticks st
   \<and> cameraText (run env acts (onCleanup st)) = cameraText st
   \<and> listeners (run env acts (onCleanup st)) = []"
proof -
  have "\<not> running (onCleanup st)" and "listeners (onCleanup st) = []"
    and "ticks (onCleanup st) = ticks st" and "cameraText (onCleanup st) = cameraText st"
    by (simp_all add: onCleanup_def cancelAnimationFrame_def Let_def)
  with run_after_cleanup [of "onCleanup st" env acts] show ?thesis
    by simp
qed

lemma cleanup_cancels_pending_frame:
  assumes "raf_callbacks st = [rafId st]" and "rafId st \<noteq> 0"
  shows "raf_callbacks (onCleanup st) = []"
  using assms by (simp add: onCleanup_def cancelAnimationFrame_def Let_def)

text \<open>
  C9. The claim is that after the cleanup no tick runs, the HUD is not written, no
  scheduled continuation does any work, and the listeners are released together. The
  lemmas above give the first, the second for the camera text, and the last. The
  \<open>async\<close> function of lines 131 to 160 does not read \<open>running\<close>: when the cleanup
  runs while it is still suspended, it resumes afterwards, writes the version text,
  creates the wasm object and the batch, and requests an animation frame. That callback
  is then pending although the loop has been stopped; when it runs it returns at line
  140 without a tick.
\<close>

theorem init_after_cleanup:
  "ver (run env_ok [Cleanup, ModuleReady ''0.1.0'', AppReady ()] onMount) = ''0.1.0''
   \<and> app (run env_ok [Cleanup, ModuleReady ''0.1.0'', AppReady ()] onMount) = Some ()
   \<and> batch (run env_ok [Cleanup, ModuleReady ''0.1.0'', AppReady ()] onMount) = Some 1
   \<and> raf_callbacks (run env_ok [Cleanup, ModuleReady ''0.1.0'', AppReady ()] onMount) = [1]
   \<and> \<not> running (run env_ok [Cleanup, ModuleReady ''0.1.0'', AppReady ()] onMount)
   \<and> raf_callbacks (run env_ok
        [Cleanup, ModuleReady ''0.1.0'', AppReady (), AnimationFrame 1] onMount) = []
   \<and> ticks (run env_ok
        [Cleanup, ModuleReady ''0.1.0'', AppReady (), AnimationFrame 1] onMount) = []"
  by (simp add: app_defs env_ok_def)

end
